theory Spec2Isabelle
  imports Main "HOL-Library.AList"
begin

section \<open>Python values, exceptions and strings\<close>

text \<open>
  The contact book of \<^verbatim>\<open>bot_assistant.py\<close> is embedded function by function.
  A Python \<^verbatim>\<open>str\<close> is a \<^typ>\<open>string\<close>, one \<^typ>\<open>char\<close> per code point; the
  model therefore covers the code points below 256, and the character classes below are
  the ones CPython gives on that range. An exception is a value of \<open>error\<close>, which
  carries the exception's class and \<^verbatim>\<open>str(e)\<close>. A method that mutates its object
  takes the object and returns the outcome together with the object afterwards, so that
  what an exception leaves behind is part of the result.
\<close>

datatype error =
    ValueError string
  | KeyError string
  | IndexError string
  | TypeError string
  | OverflowError string
  | EOFError string

text \<open>
  The places where the program hands a list of strings to a parameter that other callers
  give a string (\<^verbatim>\<open>Phone([p])\<close>, \<^verbatim>\<open>book.find(args)\<close>) need both shapes of value.
\<close>

datatype pyval = Str string | StrList "string list"

text \<open>\<^verbatim>\<open>for val in value\<close>: a string yields its characters as one-character strings.\<close>

fun iter :: "pyval \<Rightarrow> string list" where
  "iter (Str s) = map (\<lambda>c. [c]) s"
| "iter (StrList xs) = xs"

definition ascii_digit :: "char \<Rightarrow> bool" where
  "ascii_digit c = (48 \<le> (of_char c :: nat) \<and> (of_char c :: nat) \<le> 57)"

text \<open>
  \<^verbatim>\<open>str.isdigit\<close> on one character: the ASCII digits and the superscript digits
  U+00B2, U+00B3, U+00B9 (the characters below 256 whose Numeric_Type is Digit or Decimal).
\<close>

definition isdigit_char :: "char \<Rightarrow> bool" where
  "isdigit_char c =
     (ascii_digit c \<or> (of_char c :: nat) = 178 \<or> (of_char c :: nat) = 179
        \<or> (of_char c :: nat) = 185)"

text \<open>\<^verbatim>\<open>str.isdigit\<close>: false on the empty string.\<close>

definition isdigit :: "string \<Rightarrow> bool" where
  "isdigit s = (s \<noteq> [] \<and> list_all isdigit_char s)"

text \<open>\<^verbatim>\<open>str.isspace\<close> on one character, the separators of \<^verbatim>\<open>str.split()\<close>.\<close>

definition isspace_char :: "char \<Rightarrow> bool" where
  "isspace_char c =
     (let n = (of_char c :: nat)
      in (9 \<le> n \<and> n \<le> 13) \<or> (28 \<le> n \<and> n \<le> 32) \<or> n = 133 \<or> n = 160)"

text \<open>The decimal rendering of a natural number, for the messages that hold one.\<close>

fun str_nat :: "nat \<Rightarrow> string" where
  "str_nat n =
     (if n < 10 then [char_of (48 + n)]
      else str_nat (n div 10) @ [char_of (48 + n mod 10)])"

section \<open>Fields\<close>

text \<open>
  \<^verbatim>\<open>
  class Name(Field):
      def __init__(self, value):
          if not value:
              raise ValueError("Name cannot be empty")
          super().__init__(value)
  \<close>
\<close>

definition Name :: "string \<Rightarrow> error + string" where
  "Name v = (if v = [] then Inl (ValueError ''Name cannot be empty'') else Inr v)"

text \<open>
  \<^verbatim>\<open>
  class Phone(Field):
      def __init__(self, value):
          for val in value:
              if not len(val) != 10 or not val.isdigit():
                  raise ValueError("Invalid phone number format")
          super().__init__(value)
  \<close>
  \<open>Phone_loop\<close> is the \<^verbatim>\<open>for\<close> loop over the candidates; \<open>Phone\<close> returns the
  stored \<^verbatim>\<open>value\<close>.
\<close>

fun Phone_loop :: "string list \<Rightarrow> error + unit" where
  "Phone_loop [] = Inr ()"
| "Phone_loop (val # rest) =
     (if \<not> (length val \<noteq> 10) \<or> \<not> isdigit val
      then Inl (ValueError ''Invalid phone number format'')
      else Phone_loop rest)"

fun Phone :: "pyval \<Rightarrow> error + pyval" where
  "Phone v = (case Phone_loop (iter v) of Inl e \<Rightarrow> Inl e | Inr u \<Rightarrow> Inr v)"

section \<open>Record\<close>

text \<open>
  A \<^verbatim>\<open>Record\<close> object: the value of its \<^verbatim>\<open>Name\<close>, the values of its
  \<^verbatim>\<open>Phone\<close> objects in list order, and the value of its \<^verbatim>\<open>Birthday\<close> or
  \<open>None\<close>.
  \<^verbatim>\<open>
  class Record:
      def __init__(self, name, phone):
          self.name = Name(name)
          self.phones = []
          self.birthday = None
  \<close>
  The parameter \<^verbatim>\<open>phone\<close> is not used by the constructor.
\<close>

record Record =
  name :: string
  phones :: "pyval list"
  birthday :: "string option"

definition Record_init :: "string \<Rightarrow> string \<Rightarrow> error + Record" where
  "Record_init nm phone =
     (case Name nm of
        Inl e \<Rightarrow> Inl e
      | Inr n \<Rightarrow> Inr \<lparr>name = n, phones = [], birthday = None\<rparr>)"

text \<open>
  \<^verbatim>\<open>
  def add_phone(self, phone):
      self.phones.append(Phone(phone))
  \<close>
  The argument of \<^verbatim>\<open>append\<close> is evaluated first: when \<^verbatim>\<open>Phone\<close> raises, the list
  is as it was.
\<close>

definition add_phone :: "pyval \<Rightarrow> Record \<Rightarrow> (error + unit) \<times> Record" where
  "add_phone phone r =
     (case Phone phone of
        Inl e \<Rightarrow> (Inl e, r)
      | Inr p \<Rightarrow> (Inr (), r\<lparr>phones := phones r @ [p]\<rparr>))"

text \<open>
  \<^verbatim>\<open>
  def remove_phone(self, phone):
      self.phones = [p for p in self.phones if p.value != phone]
  \<close>
\<close>

definition remove_phone :: "pyval \<Rightarrow> Record \<Rightarrow> Record" where
  "remove_phone phone r = r\<lparr>phones := filter (\<lambda>p. p \<noteq> phone) (phones r)\<rparr>"

text \<open>
  \<^verbatim>\<open>
  def edit_phone(self, old_phone, new_phone):
      for p in self.phones:
          if p.value == old_phone:
              p.value = new_phone
              break
  \<close>
  \<open>edit_loop\<close> is the loop over the phone objects; the assignment writes
  \<^verbatim>\<open>new_phone\<close> into the object as it is given.
\<close>

fun edit_loop :: "pyval \<Rightarrow> pyval \<Rightarrow> pyval list \<Rightarrow> pyval list" where
  "edit_loop old_phone new_phone [] = []"
| "edit_loop old_phone new_phone (p # ps) =
     (if p = old_phone then new_phone # ps else p # edit_loop old_phone new_phone ps)"

definition edit_phone :: "pyval \<Rightarrow> pyval \<Rightarrow> Record \<Rightarrow> (error + unit) \<times> Record" where
  "edit_phone old_phone new_phone r =
     (Inr (), r\<lparr>phones := edit_loop old_phone new_phone (phones r)\<rparr>)"

text \<open>
  \<^verbatim>\<open>
  def find_phone(self, phone):
      for p in self.phones:
          if p.value == phone:
              return p
      return None
  \<close>
\<close>

fun find_phone_loop :: "pyval \<Rightarrow> pyval list \<Rightarrow> pyval option" where
  "find_phone_loop phone [] = None"
| "find_phone_loop phone (p # ps) = (if p = phone then Some p else find_phone_loop phone ps)"

definition find_phone :: "pyval \<Rightarrow> Record \<Rightarrow> pyval option" where
  "find_phone phone r = find_phone_loop phone (phones r)"

text \<open>
  \<^verbatim>\<open>
  def __str__(self):
      return f"Contact name: {self.name.value}, phones: {'; '.join(p.value for p in self.phones)}"
  \<close>
  \<^verbatim>\<open>str.join\<close> raises \<^verbatim>\<open>TypeError\<close> at the first item that is not a string.
\<close>

fun join_loop :: "string \<Rightarrow> nat \<Rightarrow> pyval list \<Rightarrow> error + string" where
  "join_loop sep i [] = Inr []"
| "join_loop sep i (StrList xs # ps) =
     Inl (TypeError (''sequence item '' @ str_nat i @ '': expected str instance, list found''))"
| "join_loop sep i (Str s # ps) =
     (case join_loop sep (Suc i) ps of
        Inl e \<Rightarrow> Inl e
      | Inr t \<Rightarrow> Inr (if ps = [] then s else s @ sep @ t))"

definition Record_str :: "Record \<Rightarrow> error + string" where
  "Record_str r =
     (case join_loop ''; '' 0 (phones r) of
        Inl e \<Rightarrow> Inl e
      | Inr t \<Rightarrow> Inr (''Contact name: '' @ name r @ '', phones: '' @ t))"

section \<open>Dates\<close>

text \<open>
  What the program uses of \<^verbatim>\<open>datetime\<close>. A date is its year, month and day;
  dates compare as these triples do.
\<close>

type_synonym date = "int \<times> int \<times> int"

definition is_leap :: "int \<Rightarrow> bool" where
  "is_leap y = (y mod 4 = 0 \<and> (y mod 100 \<noteq> 0 \<or> y mod 400 = 0))"

definition days_in_month :: "int \<Rightarrow> int \<Rightarrow> int" where
  "days_in_month y m =
     (if m = 2 then (if is_leap y then 29 else 28)
      else if m = 4 \<or> m = 6 \<or> m = 9 \<or> m = 11 then 30
      else 31)"

fun date_le :: "date \<Rightarrow> date \<Rightarrow> bool" where
  "date_le (y1, m1, d1) (y2, m2, d2) =
     (y1 < y2 \<or> (y1 = y2 \<and> (m1 < m2 \<or> (m1 = m2 \<and> d1 \<le> d2))))"

text \<open>
  The conversion of one argument of \<^verbatim>\<open>datetime(...)\<close> to a C \<^verbatim>\<open>int\<close>
  (CPython, 64-bit \<^verbatim>\<open>long\<close>).
\<close>

definition c_int :: "int \<Rightarrow> error + int" where
  "c_int n =
     (if n < - (2 ^ 63) \<or> 2 ^ 63 - 1 < n
        then Inl (OverflowError ''Python int too large to convert to C long'')
      else if 2 ^ 31 - 1 < n then Inl (OverflowError ''signed integer is greater than maximum'')
      else if n < - (2 ^ 31) then Inl (OverflowError ''signed integer is less than minimum'')
      else Inr n)"

text \<open>
  \<^verbatim>\<open>datetime(year, month, day)\<close>: the three arguments are converted in order, then
  the ranges are checked. The message of the year's \<^verbatim>\<open>ValueError\<close> holds the year
  (\<^verbatim>\<open>year 0 is out of range\<close>).
\<close>

definition year_message :: "int \<Rightarrow> string" where
  "year_message y =
     ''year '' @ (if y < 0 then ''-'' else []) @ str_nat (nat \<bar>y\<bar>) @ '' is out of range''"

definition datetime :: "int \<Rightarrow> int \<Rightarrow> int \<Rightarrow> error + date" where
  "datetime year month day =
     (case c_int year of
        Inl e \<Rightarrow> Inl e
      | Inr y \<Rightarrow>
          (case c_int month of
             Inl e \<Rightarrow> Inl e
           | Inr m \<Rightarrow>
               (case c_int day of
                  Inl e \<Rightarrow> Inl e
                | Inr d \<Rightarrow>
                    if y < 1 \<or> 9999 < y then Inl (ValueError (year_message y))
                    else if m < 1 \<or> 12 < m then Inl (ValueError ''month must be in 1..12'')
                    else if d < 1 \<or> days_in_month y m < d
                      then Inl (ValueError ''day is out of range for month'')
                    else Inr (y, m, d))))"

text \<open>The day after a date, and \<^verbatim>\<open>date + timedelta(days=n)\<close>.\<close>

fun next_day :: "date \<Rightarrow> date" where
  "next_day (y, m, d) =
     (if d < days_in_month y m then (y, m, d + 1)
      else if m < 12 then (y, m + 1, 1)
      else (y + 1, 1, 1))"

fun add_days :: "nat \<Rightarrow> date \<Rightarrow> date" where
  "add_days 0 dt = dt"
| "add_days (Suc n) dt = add_days n (next_day dt)"

definition date_plus :: "date \<Rightarrow> nat \<Rightarrow> error + date" where
  "date_plus dt n =
     (let r = add_days n dt
      in if 9999 < fst r then Inl (OverflowError ''date value out of range'') else Inr r)"

section \<open>Reading numbers and dates from strings\<close>

text \<open>\<^verbatim>\<open>value.split('.')\<close>: the pieces between the separators, empty pieces kept.\<close>

fun split_on :: "char \<Rightarrow> string \<Rightarrow> string list" where
  "split_on sep [] = [[]]"
| "split_on sep (c # cs) =
     (if c = sep then [] # split_on sep cs
      else (case split_on sep cs of
              [] \<Rightarrow> [[c]]
            | p # ps \<Rightarrow> (c # p) # ps))"

definition digit_val :: "char \<Rightarrow> int" where
  "digit_val c = int (of_char c) - 48"

text \<open>
  \<^verbatim>\<open>int(s)\<close> for a string: surrounding whitespace is dropped (the characters
  \<^verbatim>\<open>int\<close> drops: 9 to 13, 32, 133 and 160), one sign is allowed, then ASCII digits with
  single underscores between them; more than 4300 digits are refused. Every failure is a
  \<^verbatim>\<open>ValueError\<close>, here \<open>None\<close>: the only caller replaces its message.
\<close>

definition int_space :: "char \<Rightarrow> bool" where
  "int_space c =
     (let n = (of_char c :: nat) in (9 \<le> n \<and> n \<le> 13) \<or> n = 32 \<or> n = 133 \<or> n = 160)"

definition int_strip :: "string \<Rightarrow> string" where
  "int_strip s = rev (dropWhile int_space (rev (dropWhile int_space s)))"

fun int_body :: "int \<Rightarrow> string \<Rightarrow> int option" where
  "int_body acc [] = None"
| "int_body acc [c] = (if ascii_digit c then Some (acc * 10 + digit_val c) else None)"
| "int_body acc (c # d # cs) =
     (if ascii_digit c then
        (if d = CHR ''_'' then int_body (acc * 10 + digit_val c) cs
         else int_body (acc * 10 + digit_val c) (d # cs))
      else None)"

definition py_int :: "string \<Rightarrow> int option" where
  "py_int s =
     (let t = int_strip s;
          neg = (t \<noteq> [] \<and> hd t = CHR ''-'');
          u = (if t \<noteq> [] \<and> (hd t = CHR ''-'' \<or> hd t = CHR ''+'') then tl t else t)
      in if 4300 < length (filter ascii_digit u) then None
         else (case int_body 0 u of
                 None \<Rightarrow> None
               | Some n \<Rightarrow> Some (if neg then - n else n)))"

text \<open>
  \<^verbatim>\<open>
  class Birthday(Field):
      def __init__(self, value):
          try:
              day, month, year = value.split('.')
              datetime(int(year), int(month), int(day))
          except ValueError:
              raise ValueError("Invalid date format. Use DD.MM.YYYY")
          super().__init__(value)
  \<close>
  Unpacking anything but three pieces is a \<^verbatim>\<open>ValueError\<close>. An
  \<^verbatim>\<open>OverflowError\<close> of \<^verbatim>\<open>datetime\<close> is not caught here.
\<close>

definition invalid_date :: error where
  "invalid_date = ValueError ''Invalid date format. Use DD.MM.YYYY''"

definition checked_date :: "int \<Rightarrow> int \<Rightarrow> int \<Rightarrow> string \<Rightarrow> error + string" where
  "checked_date y m d v =
     (case datetime y m d of
        Inl (ValueError msg) \<Rightarrow> Inl invalid_date
      | Inl e \<Rightarrow> Inl e
      | Inr dt \<Rightarrow> Inr v)"

fun Birthday :: "string \<Rightarrow> error + string" where
  "Birthday v =
     (case split_on CHR ''.'' v of
        [day, month, year] \<Rightarrow>
          (case py_int year of
             None \<Rightarrow> Inl invalid_date
           | Some y \<Rightarrow>
               (case py_int month of
                  None \<Rightarrow> Inl invalid_date
                | Some m \<Rightarrow>
                    (case py_int day of
                       None \<Rightarrow> Inl invalid_date
                     | Some d \<Rightarrow> checked_date y m d v)))
      | _ \<Rightarrow> Inl invalid_date)"

text \<open>
  \<^verbatim>\<open>repr\<close> of a string, which \<^verbatim>\<open>strptime\<close> puts into its message: double quotes
  when the string holds a single quote and no double quote, single quotes otherwise;
  backslash, the quote, tab, newline and carriage return escaped; the characters that are
  not printable (below 32, 127 to 160, 173) as \<^verbatim>\<open>\xNN\<close>.
\<close>

definition hex_digit :: "nat \<Rightarrow> char" where
  "hex_digit n = (if n < 10 then char_of (48 + n) else char_of (87 + n))"

definition repr_char :: "char \<Rightarrow> char \<Rightarrow> string" where
  "repr_char quote c =
     (let n = (of_char c :: nat)
      in if c = quote \<or> n = 92 then [CHR 0x5C, c]
         else if n = 9 then [CHR 0x5C, CHR ''t'']
         else if n = 10 then [CHR 0x5C, CHR ''n'']
         else if n = 13 then [CHR 0x5C, CHR ''r'']
         else if n < 32 \<or> (127 \<le> n \<and> n \<le> 160) \<or> n = 173
           then [CHR 0x5C, CHR ''x'', hex_digit (n div 16), hex_digit (n mod 16)]
         else [c])"

definition py_repr :: "string \<Rightarrow> string" where
  "py_repr s =
     (let quote = (if CHR 0x27 \<in> set s \<and> CHR 0x22 \<notin> set s then CHR 0x22 else CHR 0x27)
      in [quote] @ concat (map (repr_char quote) s) @ [quote])"

text \<open>
  \<^verbatim>\<open>datetime.strptime(s, "%d.%m.%Y")\<close>. The format compiles to the regular expression
  \<^verbatim>\<open>(3[0-1]|[1-2]\d|0[1-9]|[1-9]| [1-9])\.(1[0-2]|0[1-9]|[1-9])\.(\d\d\d\d)\<close>,
  matched at the start of the string; text left after the match and a day, month or year
  that is no date are \<^verbatim>\<open>ValueError\<close>s. Neither token can hold a dot, so the day is
  the text before the first dot and the month the text before the second.
\<close>

definition nonzero_digit :: "char \<Rightarrow> bool" where
  "nonzero_digit c = (ascii_digit c \<and> c \<noteq> CHR ''0'')"

fun day_token :: "string \<Rightarrow> bool" where
  "day_token [a] = nonzero_digit a"
| "day_token [a, b] =
     ((a = CHR ''3'' \<and> (b = CHR ''0'' \<or> b = CHR ''1''))
      \<or> ((a = CHR ''1'' \<or> a = CHR ''2'') \<and> ascii_digit b)
      \<or> (a = CHR ''0'' \<and> nonzero_digit b)
      \<or> (a = CHR '' '' \<and> nonzero_digit b))"
| "day_token t = False"

fun month_token :: "string \<Rightarrow> bool" where
  "month_token [a] = nonzero_digit a"
| "month_token [a, b] =
     ((a = CHR ''1'' \<and> (b = CHR ''0'' \<or> b = CHR ''1'' \<or> b = CHR ''2''))
      \<or> (a = CHR ''0'' \<and> nonzero_digit b))"
| "month_token t = False"

text \<open>The number a matched token stands for (\<^verbatim>\<open>int\<close> of it: a leading blank is dropped).\<close>

definition token_val :: "string \<Rightarrow> int" where
  "token_val t = foldl (\<lambda>acc c. if ascii_digit c then acc * 10 + digit_val c else acc) 0 t"

fun break_on :: "char \<Rightarrow> string \<Rightarrow> (string \<times> string) option" where
  "break_on sep [] = None"
| "break_on sep (c # cs) =
     (if c = sep then Some ([], cs)
      else (case break_on sep cs of
              None \<Rightarrow> None
            | Some (a, b) \<Rightarrow> Some (c # a, b)))"

definition no_match :: "string \<Rightarrow> error" where
  "no_match s =
     ValueError (''time data '' @ py_repr s @ '' does not match format '' @ py_repr ''%d.%m.%Y'')"

definition strptime :: "string \<Rightarrow> error + date" where
  "strptime s =
     (case break_on CHR ''.'' s of
        None \<Rightarrow> Inl (no_match s)
      | Some (d, r1) \<Rightarrow>
          (case break_on CHR ''.'' r1 of
             None \<Rightarrow> Inl (no_match s)
           | Some (m, r2) \<Rightarrow>
               if day_token d \<and> month_token m \<and> 4 \<le> length r2 \<and> list_all ascii_digit (take 4 r2)
               then (if drop 4 r2 \<noteq> []
                     then Inl (ValueError (''unconverted data remains: '' @ drop 4 r2))
                     else datetime (token_val (take 4 r2)) (token_val m) (token_val d))
               else Inl (no_match s)))"

section \<open>Record: the birthday\<close>

text \<open>
  \<^verbatim>\<open>
  def add_birthday(self, birthday):
      if self.birthday is None:
          self.birthday = Birthday(birthday)
      else:
          raise ValueError("Birthday already exists")
  \<close>
\<close>

definition Record_add_birthday :: "string \<Rightarrow> Record \<Rightarrow> (error + unit) \<times> Record" where
  "Record_add_birthday b r =
     (if birthday r = None
      then (case Birthday b of
              Inl e \<Rightarrow> (Inl e, r)
            | Inr v \<Rightarrow> (Inr (), r\<lparr>birthday := Some v\<rparr>))
      else (Inl (ValueError ''Birthday already exists''), r))"

section \<open>AddressBook\<close>

text \<open>
  The \<^verbatim>\<open>UserDict\<close>: its entries in insertion order, one per key. Assigning to a key
  that is present replaces the value where it stands, assigning to a new key appends
  (\<^const>\<open>AList.update\<close>).
  \<^verbatim>\<open>
  def add_record(self, name, phone):
      self.data[name] = Record(name, phone)
  \<close>
\<close>

type_synonym AddressBook = "(string \<times> Record) list"

definition add_record :: "string \<Rightarrow> string \<Rightarrow> AddressBook \<Rightarrow> (error + unit) \<times> AddressBook" where
  "add_record nm phone book =
     (case Record_init nm phone of
        Inl e \<Rightarrow> (Inl e, book)
      | Inr r \<Rightarrow> (Inr (), AList.update nm r book))"

text \<open>
  \<^verbatim>\<open>
  def find(self, name):
      return self.data.get(name)
  \<close>
  A list is not hashable: \<^verbatim>\<open>dict.get\<close> raises \<^verbatim>\<open>TypeError\<close> for it.
\<close>

definition unhashable_list :: error where
  "unhashable_list = TypeError (''unhashable type: '' @ [CHR 0x27] @ ''list'' @ [CHR 0x27])"

fun find_book :: "pyval \<Rightarrow> AddressBook \<Rightarrow> error + Record option" where
  "find_book (Str k) book = Inr (map_of book k)"
| "find_book (StrList xs) book = Inl unhashable_list"

text \<open>
  \<^verbatim>\<open>
  def delete(self, name):
      if name in self.data:
          del self.data[name]
  \<close>
\<close>

definition delete_book :: "string \<Rightarrow> AddressBook \<Rightarrow> AddressBook" where
  "delete_book nm book = (if map_of book nm \<noteq> None then AList.delete nm book else book)"

text \<open>
  \<^verbatim>\<open>
  def __str__(self):
      return '\n'.join(str(record) for record in self.data.values())
  \<close>
\<close>

fun records_str :: "Record list \<Rightarrow> error + string list" where
  "records_str [] = Inr []"
| "records_str (r # rs) =
     (case Record_str r of
        Inl e \<Rightarrow> Inl e
      | Inr s \<Rightarrow> (case records_str rs of Inl e \<Rightarrow> Inl e | Inr ss \<Rightarrow> Inr (s # ss)))"

definition AddressBook_str :: "AddressBook \<Rightarrow> error + string" where
  "AddressBook_str book =
     (case records_str (map snd book) of
        Inl e \<Rightarrow> Inl e
      | Inr ss \<Rightarrow> join_loop [CHR 0x0A] 0 (map Str ss))"

text \<open>
  \<^verbatim>\<open>
  def get_upcoming_birthdays(self):
      upcoming_birthdays = []
      for record in self.data.values():
          if record.birthday is not None:
              birthday_date = datetime.strptime(record.birthday.value, "%d.%m.%Y")
              if (birthday_date.date() >= datetime.today().date() and
                      birthday_date.date() <= datetime.today().date() + timedelta(days=7)):
                  upcoming_birthdays.append({"name": record.name.value, "birthday": record.birthday.value})
      return upcoming_birthdays
  \<close>
  \<open>today\<close> is the date \<^verbatim>\<open>datetime.today()\<close> gives during the call. An entry
  of the result is the pair of its \<^verbatim>\<open>name\<close> and \<^verbatim>\<open>birthday\<close>. The date that is
  compared is the parsed one, with the year the string holds.
\<close>

fun upcoming_loop :: "date \<Rightarrow> Record list \<Rightarrow> (string \<times> string) list \<Rightarrow> error + (string \<times> string) list" where
  "upcoming_loop today [] upcoming_birthdays = Inr upcoming_birthdays"
| "upcoming_loop today (r # rs) upcoming_birthdays =
     (case birthday r of
        None \<Rightarrow> upcoming_loop today rs upcoming_birthdays
      | Some b \<Rightarrow>
          (case strptime b of
             Inl e \<Rightarrow> Inl e
           | Inr birthday_date \<Rightarrow>
               if date_le today birthday_date
               then (case date_plus today 7 of
                       Inl e \<Rightarrow> Inl e
                     | Inr limit \<Rightarrow>
                         if date_le birthday_date limit
                         then upcoming_loop today rs (upcoming_birthdays @ [(name r, b)])
                         else upcoming_loop today rs upcoming_birthdays)
               else upcoming_loop today rs upcoming_birthdays))"

definition get_upcoming_birthdays :: "date \<Rightarrow> AddressBook \<Rightarrow> error + (string \<times> string) list" where
  "get_upcoming_birthdays today book = upcoming_loop today (map snd book) []"

section \<open>Command handlers\<close>

text \<open>
  What a handler returns is a string or \<^verbatim>\<open>None\<close>. The outcome of a call is what it
  returned or raised, the book afterwards (the records are changed in place) and the
  lines it printed.
\<close>

datatype reply = Text string | NoValue

record outcome =
  returned :: "error + reply"
  book_after :: AddressBook
  printed :: "string list"

text \<open>
  \<^verbatim>\<open>
  def input_error(func):
      def inner(*args, **kwargs):
          try:
              return func(*args, **kwargs)
          except ValueError as e:
              return f"ValueError: {str(e)}"
          except KeyError as e:
              return f"KeyError: {str(e)}"
          except IndexError as e:
              return f"IndexError: {str(e)}"
          except Exception as e:
              return f"An error occurred: {str(e)}"
      return inner
  \<close>
\<close>

fun caught :: "error \<Rightarrow> string" where
  "caught (ValueError msg) = ''ValueError: '' @ msg"
| "caught (KeyError msg) = ''KeyError: '' @ msg"
| "caught (IndexError msg) = ''IndexError: '' @ msg"
| "caught (TypeError msg) = ''An error occurred: '' @ msg"
| "caught (OverflowError msg) = ''An error occurred: '' @ msg"
| "caught (EOFError msg) = ''An error occurred: '' @ msg"

definition input_error :: "('a \<Rightarrow> AddressBook \<Rightarrow> outcome) \<Rightarrow> 'a \<Rightarrow> AddressBook \<Rightarrow> outcome" where
  "input_error func args book =
     (let r = func args book
      in case returned r of
           Inl e \<Rightarrow> r\<lparr>returned := Inr (Text (caught e))\<rparr>
         | Inr v \<Rightarrow> r)"

text \<open>
  \<^verbatim>\<open>
  @input_error
  def add_birthday(args, book):
      name, birthday = args
      record = book.find(name)
      if record:
          record.add_birthday(birthday)
          return "Birthday added."
      else:
          return "Contact not found."
  \<close>
  \<open>add_birthday_body\<close> is the function as written, \<open>add_birthday\<close> the decorated one.
  The record that \<^verbatim>\<open>find\<close> gave is the object in the book: what the method leaves
  of it is stored under the key it was found at.
\<close>

definition unpack2_error :: "nat \<Rightarrow> error" where
  "unpack2_error n =
     (if n < 2
      then ValueError (''not enough values to unpack (expected 2, got '' @ str_nat n @ '')'')
      else ValueError ''too many values to unpack (expected 2)'')"

fun add_birthday_body :: "string list \<Rightarrow> AddressBook \<Rightarrow> outcome" where
  "add_birthday_body [nm, bd] book =
     (case find_book (Str nm) book of
        Inl e \<Rightarrow> \<lparr>returned = Inl e, book_after = book, printed = []\<rparr>
      | Inr None \<Rightarrow>
          \<lparr>returned = Inr (Text ''Contact not found.''), book_after = book, printed = []\<rparr>
      | Inr (Some r) \<Rightarrow>
          (case Record_add_birthday bd r of
             (Inl e, r') \<Rightarrow>
               \<lparr>returned = Inl e, book_after = AList.update nm r' book, printed = []\<rparr>
           | (Inr u, r') \<Rightarrow>
               \<lparr>returned = Inr (Text ''Birthday added.''),
                book_after = AList.update nm r' book, printed = []\<rparr>))"
| "add_birthday_body args book =
     \<lparr>returned = Inl (unpack2_error (length args)), book_after = book, printed = []\<rparr>"

definition add_birthday :: "string list \<Rightarrow> AddressBook \<Rightarrow> outcome" where
  "add_birthday = input_error add_birthday_body"

text \<open>
  \<^verbatim>\<open>
  @input_error
  def show_birthday(args, book):
      name = args
      record = book.find(name)
      if record and record.birthday:
          return record.birthday.value
      else:
          return "Birthday not set."
  \<close>
  \<^verbatim>\<open>args\<close> itself is the key that is looked up.
\<close>

definition show_birthday_body :: "pyval \<Rightarrow> AddressBook \<Rightarrow> outcome" where
  "show_birthday_body args book =
     (case find_book args book of
        Inl e \<Rightarrow> \<lparr>returned = Inl e, book_after = book, printed = []\<rparr>
      | Inr None \<Rightarrow>
          \<lparr>returned = Inr (Text ''Birthday not set.''), book_after = book, printed = []\<rparr>
      | Inr (Some r) \<Rightarrow>
          (case birthday r of
             Some b \<Rightarrow> \<lparr>returned = Inr (Text b), book_after = book, printed = []\<rparr>
           | None \<Rightarrow>
               \<lparr>returned = Inr (Text ''Birthday not set.''), book_after = book, printed = []\<rparr>))"

definition show_birthday :: "pyval \<Rightarrow> AddressBook \<Rightarrow> outcome" where
  "show_birthday = input_error show_birthday_body"

text \<open>
  \<^verbatim>\<open>
  @input_error
  def birthdays(args, book):
      upcoming_birthdays = book.get_upcoming_birthdays()
      if upcoming_birthdays:
          for birthday in upcoming_birthdays:
              print(f"Name: {birthday['name']}, Birthday: {birthday['birthday']}")
      else:
          print("No upcoming birthdays.")
  \<close>
\<close>

definition birthdays_body :: "date \<Rightarrow> string list \<Rightarrow> AddressBook \<Rightarrow> outcome" where
  "birthdays_body today args book =
     (case get_upcoming_birthdays today book of
        Inl e \<Rightarrow> \<lparr>returned = Inl e, book_after = book, printed = []\<rparr>
      | Inr upcoming_birthdays \<Rightarrow>
          if upcoming_birthdays \<noteq> []
          then \<lparr>returned = Inr NoValue, book_after = book,
                printed = map (\<lambda>(n, b). ''Name: '' @ n @ '', Birthday: '' @ b) upcoming_birthdays\<rparr>
          else \<lparr>returned = Inr NoValue, book_after = book,
                printed = [''No upcoming birthdays.'']\<rparr>)"

definition birthdays :: "date \<Rightarrow> string list \<Rightarrow> AddressBook \<Rightarrow> outcome" where
  "birthdays today = input_error (birthdays_body today)"

section \<open>The dispatch loop\<close>

text \<open>
  \<^verbatim>\<open>
  def parse_input(user_input):
      cmd, *args = user_input.split()
      cmd = cmd.strip().lower()
      return cmd, *args
  \<close>
  \<^verbatim>\<open>split()\<close> cuts at runs of whitespace; \<^verbatim>\<open>lower()\<close> on the code points below 256
  moves A to Z and U+00C0 to U+00DE, U+00D7 apart, up by 32.
\<close>

fun split_loop :: "string \<Rightarrow> string \<Rightarrow> string list" where
  "split_loop cur [] = (if cur = [] then [] else [cur])"
| "split_loop cur (c # cs) =
     (if isspace_char c
      then (if cur = [] then split_loop [] cs else cur # split_loop [] cs)
      else split_loop (cur @ [c]) cs)"

definition py_split :: "string \<Rightarrow> string list" where
  "py_split s = split_loop [] s"

definition py_strip :: "string \<Rightarrow> string" where
  "py_strip s = rev (dropWhile isspace_char (rev (dropWhile isspace_char s)))"

definition lower_char :: "char \<Rightarrow> char" where
  "lower_char c =
     (let n = (of_char c :: nat)
      in if (65 \<le> n \<and> n \<le> 90) \<or> (192 \<le> n \<and> n \<le> 222 \<and> n \<noteq> 215)
         then char_of (n + 32) else c)"

definition py_lower :: "string \<Rightarrow> string" where
  "py_lower s = map lower_char s"

definition parse_input :: "string \<Rightarrow> error + string \<times> string list" where
  "parse_input user_input =
     (case py_split user_input of
        [] \<Rightarrow> Inl (ValueError ''not enough values to unpack (expected at least 1, got 0)'')
      | cmd # args \<Rightarrow> Inr (py_lower (py_strip cmd), args))"

text \<open>
  One pass through the body of \<^verbatim>\<open>while True\<close> in \<^verbatim>\<open>main\<close>: the exception that
  leaves \<^verbatim>\<open>main\<close>, if one does, the book afterwards, the lines printed, whether the
  loop was left by \<^verbatim>\<open>break\<close>, and the book handed to \<^verbatim>\<open>save_data\<close>.
  \<^verbatim>\<open>
  elif command == "change":
      if len(args) != 3:
          print("Invalid input format. Use 'change name old_phone new_phone'.")
          continue
      record = book.find(args)
      if record:
          record.edit_phone(args, args)
          print("Phone changed.")
      else:
          print("Contact not found.")
  elif command == "phone":
      if len(args) != 1:
          print("Invalid input format. Use 'phone name'.")
          continue
      record = book.find(args)
      if record:
          print(record)
      else:
          print("Contact not found.")
  \<close>
  The other branches are embedded in the same way, in the order of the source.
\<close>

record step =
  raised :: "error option"
  book_now :: AddressBook
  shown :: "string list"
  finished :: bool
  saved :: "AddressBook option"

definition carry_on :: "AddressBook \<Rightarrow> string list \<Rightarrow> step" where
  "carry_on book ls =
     \<lparr>raised = None, book_now = book, shown = ls, finished = False, saved = None\<rparr>"

definition crash :: "error \<Rightarrow> AddressBook \<Rightarrow> string list \<Rightarrow> step" where
  "crash e book ls =
     \<lparr>raised = Some e, book_now = book, shown = ls, finished = False, saved = None\<rparr>"

definition usage :: "string \<Rightarrow> string" where
  "usage form = ''Invalid input format. Use '' @ [CHR 0x27] @ form @ [CHR 0x27] @ ''.''"

text \<open>What \<^verbatim>\<open>print\<close> writes for a returned value.\<close>

fun reply_text :: "reply \<Rightarrow> string" where
  "reply_text (Text s) = s"
| "reply_text NoValue = ''None''"

text \<open>The record found under a key is the object in the book; this stores what a method left of it.\<close>

fun put_back :: "pyval \<Rightarrow> Record \<Rightarrow> AddressBook \<Rightarrow> AddressBook" where
  "put_back (Str k) r book = AList.update k r book"
| "put_back (StrList xs) r book = book"

definition run_command :: "date \<Rightarrow> string \<Rightarrow> string list \<Rightarrow> AddressBook \<Rightarrow> step" where
  "run_command today command args book =
     (if command = ''close'' \<or> command = ''exit'' then
        \<lparr>raised = None, book_now = book, shown = [''Good bye!''], finished = True,
         saved = Some book\<rparr>
      else if command = ''hello'' then carry_on book [''How can I help you?'']
      else if command = ''add'' then
        (if length args \<noteq> 2 then carry_on book [usage ''add name phone'']
         else (case add_record (args ! 0) (args ! 1) book of
                 (Inl e, book') \<Rightarrow> crash e book' []
               | (Inr u, book') \<Rightarrow> carry_on book' [''Contact added.'']))
      else if command = ''change'' then
        (if length args \<noteq> 3 then carry_on book [usage ''change name old_phone new_phone'']
         else (case find_book (StrList args) book of
                 Inl e \<Rightarrow> crash e book []
               | Inr None \<Rightarrow> carry_on book [''Contact not found.'']
               | Inr (Some r) \<Rightarrow>
                   (case edit_phone (StrList args) (StrList args) r of
                      (Inl e, r') \<Rightarrow> crash e (put_back (StrList args) r' book) []
                    | (Inr u, r') \<Rightarrow>
                        carry_on (put_back (StrList args) r' book) [''Phone changed.''])))
      else if command = ''phone'' then
        (if length args \<noteq> 1 then carry_on book [usage ''phone name'']
         else (case find_book (StrList args) book of
                 Inl e \<Rightarrow> crash e book []
               | Inr None \<Rightarrow> carry_on book [''Contact not found.'']
               | Inr (Some r) \<Rightarrow>
                   (case Record_str r of
                      Inl e \<Rightarrow> crash e book []
                    | Inr s \<Rightarrow> carry_on book [s])))
      else if command = ''all'' then
        (case AddressBook_str book of
           Inl e \<Rightarrow> crash e book []
         | Inr s \<Rightarrow> carry_on book [s])
      else if command = ''add-birthday'' then
        (if length args \<noteq> 2 then carry_on book [usage ''add-birthday name birthday'']
         else (let r = add_birthday args book
               in case returned r of
                    Inl e \<Rightarrow> crash e (book_after r) (printed r)
                  | Inr v \<Rightarrow> carry_on (book_after r) (printed r @ [reply_text v])))
      else if command = ''show-birthday'' then
        (if length args \<noteq> 1 then carry_on book [usage ''show-birthday name'']
         else (let r = show_birthday (StrList args) book
               in case returned r of
                    Inl e \<Rightarrow> crash e (book_after r) (printed r)
                  | Inr v \<Rightarrow> carry_on (book_after r) (printed r @ [reply_text v])))
      else if command = ''birthdays'' then
        (let r = birthdays today args book
         in case returned r of
              Inl e \<Rightarrow> crash e (book_after r) (printed r)
            | Inr v \<Rightarrow> carry_on (book_after r) (printed r))
      else carry_on book [''Invalid command.''])"

definition main_step :: "date \<Rightarrow> string \<Rightarrow> AddressBook \<Rightarrow> step" where
  "main_step today user_input book =
     (case parse_input user_input of
        Inl e \<Rightarrow> crash e book []
      | Inr (command, args) \<Rightarrow> run_command today command args book)"

text \<open>
  The loop over the lines the user types, each with the date of the day it is handled
  on. When the input ends before \<^verbatim>\<open>close\<close> or \<^verbatim>\<open>exit\<close>, \<^verbatim>\<open>input\<close> raises
  \<^verbatim>\<open>EOFError\<close>.
\<close>

fun main_loop :: "(date \<times> string) list \<Rightarrow> AddressBook \<Rightarrow> string list \<Rightarrow> step" where
  "main_loop [] book ls = crash (EOFError ''EOF when reading a line'') book ls"
| "main_loop ((today, user_input) # rest) book ls =
     (let s = main_step today user_input book
      in if raised s \<noteq> None \<or> finished s then s\<lparr>shown := ls @ shown s\<rparr>
         else main_loop rest (book_now s) (ls @ shown s))"

text \<open>
  \<^verbatim>\<open>
  def load_data(filename="addressbook.pkl"):
      try:
          with open(filename, "rb") as f:
              return pickle.load(f)
      except FileNotFoundError:
          return AddressBook()
  \<close>
  The file is stood for by the book it holds, \<open>None\<close> when there is no file; how
  \<^verbatim>\<open>pickle\<close> writes and reads a book is not part of the embedding.
\<close>

definition load_data :: "AddressBook option \<Rightarrow> AddressBook" where
  "load_data file = (case file of None \<Rightarrow> [] | Some book \<Rightarrow> book)"

definition main :: "AddressBook option \<Rightarrow> (date \<times> string) list \<Rightarrow> step" where
  "main file inputs = main_loop inputs (load_data file) [''Welcome to the assistant bot!'']"

section \<open>Sequences of book operations\<close>

text \<open>
  The calls a client makes on an \<^verbatim>\<open>AddressBook\<close>, and a run of them one after the
  other. An \<^verbatim>\<open>add_record\<close> that raises leaves the book as it was, and the run goes on
  with the next call, as a client that catches the exception would. \<^verbatim>\<open>find\<close> changes
  nothing.
\<close>

datatype book_op = AddRecord string string | Delete string | Find pyval

fun apply_op :: "book_op \<Rightarrow> AddressBook \<Rightarrow> AddressBook" where
  "apply_op (AddRecord nm phone) book = snd (add_record nm phone book)"
| "apply_op (Delete nm) book = delete_book nm book"
| "apply_op (Find k) book = book"

definition run_ops :: "book_op list \<Rightarrow> AddressBook \<Rightarrow> AddressBook" where
  "run_ops ops book = fold apply_op ops book"

text \<open>
  The invariant of the book: no key twice, and every record stored under the name it
  holds, which is not empty.
\<close>

definition well_keyed :: "AddressBook \<Rightarrow> bool" where
  "well_keyed book =
     (distinct (map fst book) \<and> list_all (\<lambda>(k, r). k \<noteq> [] \<and> name r = k) book)"

section \<open>Properties of the fields\<close>




lemma add_phone_superscript_two:
  "add_phone (Str [CHR 0xB2]) r = (Inr (), r\<lparr>phones := phones r @ [Str [CHR 0xB2]]\<rparr>)"
  by (simp add: add_phone_def isdigit_def isdigit_char_def)

lemma ascii_non_digit_rejected:
  "(of_char c :: nat) < 128 \<Longrightarrow> \<not> ascii_digit c \<Longrightarrow> \<not> isdigit_char c"
  by (simp add: isdigit_char_def)




section \<open>Properties of the phone check\<close>

lemma Phone_single_ten:
  "length p = 10 \<Longrightarrow> Phone (StrList [p]) = Inl (ValueError ''Invalid phone number format'')"
  by simp

lemma Phone_single_other:
  "length p \<noteq> 10 \<Longrightarrow> isdigit p \<Longrightarrow> Phone (StrList [p]) = Inr (StrList [p])"
  by simp

text \<open>
  C1. The claim wants \<^verbatim>\<open>Phone([p])\<close> to succeed for ten digits and to fail for any other
  length. The test in the loop is \<^verbatim>\<open>not len(val) != 10\<close>, that is, length equal to
  ten: the candidate of ten digits is the one that is refused, and a candidate of nine
  digits is accepted.
\<close>

theorem Phone_rejects_ten_digits:
  "Phone (StrList [''1234567890'']) = Inl (ValueError ''Invalid phone number format'') \<and>
   Phone (StrList [''123456789'']) = Inr (StrList [''123456789''])"
  by (simp add: isdigit_def isdigit_char_def ascii_digit_def)

section \<open>Properties of the record and the book\<close>

lemma add_record_stores_empty_phones:
  "nm \<noteq> [] \<Longrightarrow>
   map_of (snd (add_record nm phone book)) nm = Some \<lparr>name = nm, phones = [], birthday = None\<rparr>"
  by (simp add: add_record_def Record_init_def Name_def update_conv')

text \<open>
  C2. The claim wants the record stored by \<^verbatim>\<open>add_record("Ann", "1234567890")\<close> to hold
  the phone and to print as \<^verbatim>\<open>Contact name: Ann, phones: 1234567890\<close>. The constructor
  of \<^verbatim>\<open>Record\<close> never touches its \<^verbatim>\<open>phone\<close> argument: the stored record has no
  phone and prints with nothing after \<^verbatim>\<open>phones: \<close>.
\<close>

theorem add_record_drops_phone:
  "find_book (Str ''Ann'') (snd (add_record ''Ann'' ''1234567890'' []))
     = Inr (Some \<lparr>name = ''Ann'', phones = [], birthday = None\<rparr>) \<and>
   Record_str \<lparr>name = ''Ann'', phones = [], birthday = None\<rparr>
     = Inr ''Contact name: Ann, phones: ''"
  by (simp add: add_record_def Record_init_def Name_def Record_str_def)

lemma edit_loop_absent: "old_phone \<notin> set ps \<Longrightarrow> edit_loop old_phone new_phone ps = ps"
  by (induction ps) auto

lemma edit_loop_first:
  "old_phone \<notin> set ps \<Longrightarrow>
   edit_loop old_phone new_phone (ps @ old_phone # qs) = ps @ new_phone # qs"
  by (induction ps) auto

text \<open>
  C6. The claim wants \<^verbatim>\<open>edit_phone(old, new)\<close> to validate \<^verbatim>\<open>new\<close> as a phone
  before it replaces the first phone equal to \<^verbatim>\<open>old\<close>. The method assigns
  \<^verbatim>\<open>new_phone\<close> to the phone's value without calling \<^verbatim>\<open>Phone\<close>: a string that
  \<^verbatim>\<open>Phone\<close>, and with it \<^verbatim>\<open>add_phone\<close>, refuses is stored and nothing is raised.
  (\<open>edit_loop_first\<close> and \<open>edit_loop_absent\<close> are the two parts of the claim that
  hold: the first equal phone is the one replaced, and a list without one is unchanged.)
\<close>

theorem edit_phone_stores_unvalidated:
  "edit_phone (Str ''1234567890'') (Str ''12a'')
     \<lparr>name = ''Ann'', phones = [Str ''1234567890''], birthday = None\<rparr>
     = (Inr (), \<lparr>name = ''Ann'', phones = [Str ''12a''], birthday = None\<rparr>) \<and>
   Phone (Str ''12a'') = Inl (ValueError ''Invalid phone number format'')"
  by (simp add: edit_phone_def isdigit_def isdigit_char_def ascii_digit_def)

lemma ascii_digit_plain:
  assumes "ascii_digit c"
  shows "c \<noteq> CHR ''.''" and "c \<noteq> CHR ''-''" and "c \<noteq> CHR ''+''" and "c \<noteq> CHR ''_''"
    and "\<not> int_space c"
  using assms by (auto simp add: ascii_digit_def int_space_def Let_def)

lemma int_strip_digits:
  "list_all ascii_digit s \<Longrightarrow> int_strip s = s"
proof -
  assume a: "list_all ascii_digit s"
  have "dropWhile int_space t = t" if "list_all ascii_digit t" for t
    using that by (cases t) (simp_all add: ascii_digit_plain)
  moreover from a have "list_all ascii_digit (rev s)" by (simp add: list_all_iff)
  ultimately show ?thesis using a by (simp add: int_strip_def)
qed

lemma py_int_two_digits:
  assumes "ascii_digit a" and "ascii_digit b"
  shows "py_int [a, b] = Some (digit_val a * 10 + digit_val b)"
proof -
  from assms have "int_strip [a, b] = [a, b]" by (simp add: int_strip_digits)
  with assms show ?thesis by (simp add: py_int_def ascii_digit_plain)
qed

lemma py_int_four_digits:
  assumes "ascii_digit a" and "ascii_digit b" and "ascii_digit c" and "ascii_digit d"
  shows "py_int [a, b, c, d]
           = Some (((digit_val a * 10 + digit_val b) * 10 + digit_val c) * 10 + digit_val d)"
proof -
  from assms have "int_strip [a, b, c, d] = [a, b, c, d]" by (simp add: int_strip_digits)
  with assms show ?thesis by (simp add: py_int_def ascii_digit_plain)
qed

lemma Birthday_accepts_DD_MM_YYYY:
  assumes digits: "list_all ascii_digit [d1, d2, m1, m2, y1, y2, y3, y4]"
    and real: "datetime (((digit_val y1 * 10 + digit_val y2) * 10 + digit_val y3) * 10 + digit_val y4)
                 (digit_val m1 * 10 + digit_val m2) (digit_val d1 * 10 + digit_val d2) = Inr dt"
  shows "Birthday [d1, d2, CHR ''.'', m1, m2, CHR ''.'', y1, y2, y3, y4]
           = Inr [d1, d2, CHR ''.'', m1, m2, CHR ''.'', y1, y2, y3, y4]"
proof -
  from digits have split:
    "split_on CHR ''.'' [d1, d2, CHR ''.'', m1, m2, CHR ''.'', y1, y2, y3, y4]
       = [[d1, d2], [m1, m2], [y1, y2, y3, y4]]"
    by (simp add: ascii_digit_plain)
  from digits real show ?thesis
    unfolding Birthday.simps split
    by (simp add: py_int_two_digits py_int_four_digits checked_date_def)
qed

lemma Birthday_value: "Birthday b = Inr v \<Longrightarrow> v = b"
  by (auto simp add: checked_date_def split: list.splits option.splits sum.splits error.splits)

lemma Birthday_13_06_2024: "Birthday ''13.06.2024'' = Inr ''13.06.2024''"
  by (simp add: py_int_def int_strip_def int_space_def ascii_digit_def digit_val_def
      checked_date_def datetime_def c_int_def days_in_month_def is_leap_def)

text \<open>
  C5. On a record with no birthday, \<^verbatim>\<open>add_birthday\<close> with a string that
  \<^verbatim>\<open>Birthday\<close> accepts returns normally and leaves the record with that birthday and
  its name and phones as they were; \<^verbatim>\<open>add_birthday\<close> on the record so obtained, with
  any string, raises \<^verbatim>\<open>ValueError("Birthday already exists")\<close> and leaves the record,
  its birthday included, as it was. The strings \<^verbatim>\<open>Birthday\<close> accepts include every
  date written as two digits, a dot, two digits, a dot and four digits that
  \<^verbatim>\<open>datetime\<close> takes for a date (\<open>Birthday_accepts_DD_MM_YYYY\<close>).
\<close>

theorem Record_add_birthday_once:
  assumes "birthday r = None" and "Birthday b = Inr v"
  shows "Record_add_birthday b r = (Inr (), r\<lparr>birthday := Some b\<rparr>) \<and>
         Record_add_birthday b' (r\<lparr>birthday := Some b\<rparr>)
           = (Inl (ValueError ''Birthday already exists''), r\<lparr>birthday := Some b\<rparr>)"
proof -
  from assms(2) have "v = b" by (rule Birthday_value)
  with assms have first: "Record_add_birthday b r = (Inr (), r\<lparr>birthday := Some b\<rparr>)"
    by (simp add: Record_add_birthday_def)
  have second: "Record_add_birthday b' (r\<lparr>birthday := Some b\<rparr>)
      = (Inl (ValueError ''Birthday already exists''), r\<lparr>birthday := Some b\<rparr>)"
    by (simp add: Record_add_birthday_def)
  from first second show ?thesis by simp
qed

theorem Record_add_birthday_once_witness:
  "Record_add_birthday ''13.06.2024'' \<lparr>name = ''Ann'', phones = [Str ''1''], birthday = None\<rparr>
     = (Inr (), \<lparr>name = ''Ann'', phones = [Str ''1''], birthday = Some ''13.06.2024''\<rparr>) \<and>
   Record_add_birthday ''01.01.2000''
       \<lparr>name = ''Ann'', phones = [Str ''1''], birthday = Some ''13.06.2024''\<rparr>
     = (Inl (ValueError ''Birthday already exists''),
        \<lparr>name = ''Ann'', phones = [Str ''1''], birthday = Some ''13.06.2024''\<rparr>)"
proof -
  have unset: "birthday \<lparr>name = ''Ann'', phones = [Str ''1''], birthday = None\<rparr> = None"
    by simp
  show ?thesis
    using Record_add_birthday_once [OF unset Birthday_13_06_2024, of "''01.01.2000''"]
    by simp
qed

section \<open>Properties of runs of book operations\<close>

lemma list_all_update:
  "list_all P book \<Longrightarrow> P (k, v) \<Longrightarrow> list_all P (AList.update k v book)"
  by (induction book) auto

lemma well_keyed_add_record: "well_keyed book \<Longrightarrow> well_keyed (snd (add_record nm phone book))"
  by (auto simp add: well_keyed_def add_record_def Record_init_def Name_def
      distinct_update list_all_update)

lemma well_keyed_delete_book: "well_keyed book \<Longrightarrow> well_keyed (delete_book nm book)"
  by (auto simp add: well_keyed_def delete_book_def AList.delete_eq distinct_map_filter
      list_all_iff)

lemma well_keyed_apply_op: "well_keyed book \<Longrightarrow> well_keyed (apply_op op book)"
  by (cases op) (simp_all add: well_keyed_add_record well_keyed_delete_book)

lemma well_keyed_run_ops: "well_keyed book \<Longrightarrow> well_keyed (run_ops ops book)"
  unfolding run_ops_def
  by (induction ops arbitrary: book) (simp_all add: well_keyed_apply_op)

lemma well_keyed_lookup:
  assumes "well_keyed book" and "map_of book k = Some r"
  shows "name r = k \<and> k \<noteq> []"
proof -
  from assms(2) have "(k, r) \<in> set book" by (rule map_of_SomeD)
  with assms(1) show ?thesis by (auto simp add: well_keyed_def list_all_iff)
qed

lemma add_record_present:
  assumes "k \<in> fst ` set book" and "k \<noteq> []"
  shows "map fst (snd (add_record k phone book)) = map fst book"
  using assms by (simp add: add_record_def Record_init_def Name_def update_keys)

text \<open>
  C9. From a book in which every record is stored under its own, non-empty name and no
  key stands twice (the empty book is one), every run of \<^verbatim>\<open>add_record\<close>,
  \<^verbatim>\<open>delete\<close> and \<^verbatim>\<open>find\<close> calls leads to a book whose keys are distinct and
  in which every key maps to a record of that name; and \<^verbatim>\<open>add_record\<close> with a name
  that is present leaves the keys as they are and puts the new record in the place of
  the old one.
\<close>

theorem AddressBook_keys_are_names:
  assumes "well_keyed book"
  shows "distinct (map fst (run_ops ops book)) \<and>
         (\<forall>k r. map_of (run_ops ops book) k = Some r \<longrightarrow> name r = k) \<and>
         (\<forall>k phone. k \<in> fst ` set (run_ops ops book) \<longrightarrow>
            map fst (snd (add_record k phone (run_ops ops book))) = map fst (run_ops ops book) \<and>
            map_of (snd (add_record k phone (run_ops ops book))) k
              = Some \<lparr>name = k, phones = [], birthday = None\<rparr>)"
proof -
  let ?b = "run_ops ops book"
  from assms have wk: "well_keyed ?b" by (rule well_keyed_run_ops)
  then have d: "distinct (map fst ?b)" by (simp add: well_keyed_def)
  from wk have n: "\<forall>k r. map_of ?b k = Some r \<longrightarrow> name r = k"
    using well_keyed_lookup by blast
  have o: "map fst (snd (add_record k phone ?b)) = map fst ?b \<and>
           map_of (snd (add_record k phone ?b)) k = Some \<lparr>name = k, phones = [], birthday = None\<rparr>"
    if "k \<in> fst ` set ?b" for k phone
  proof -
    from that obtain r where "(k, r) \<in> set ?b" by auto
    with wk have "k \<noteq> []" by (auto simp add: well_keyed_def list_all_iff)
    with that show ?thesis
      by (simp add: add_record_present add_record_stores_empty_phones)
  qed
  from d n o show ?thesis by blast
qed

lemma run_sample:
  "run_ops [AddRecord ''Ann'' ''1'', AddRecord ''Bob'' ''2'', AddRecord [] ''5'',
            AddRecord ''Ann'' ''3'', Delete ''Bob'', Find (Str ''Ann'')] []
     = [(''Ann'', \<lparr>name = ''Ann'', phones = [], birthday = None\<rparr>)]"
  by (simp add: run_ops_def add_record_def Record_init_def Name_def delete_book_def
      AList.delete_eq)

theorem AddressBook_keys_are_names_witness:
  "well_keyed [] \<and>
   run_ops [AddRecord ''Ann'' ''1'', AddRecord ''Bob'' ''2'', AddRecord [] ''5'',
            AddRecord ''Ann'' ''3'', Delete ''Bob'', Find (Str ''Ann'')] []
     = [(''Ann'', \<lparr>name = ''Ann'', phones = [], birthday = None\<rparr>)] \<and>
   name \<lparr>name = ''Ann'', phones = [], birthday = None\<rparr> = ''Ann'' \<and>
   map fst (snd (add_record ''Ann'' ''9''
      [(''Ann'', \<lparr>name = ''Ann'', phones = [], birthday = None\<rparr>)])) = [''Ann''] \<and>
   map_of (snd (add_record ''Ann'' ''9''
      [(''Ann'', \<lparr>name = ''Ann'', phones = [], birthday = None\<rparr>)])) ''Ann''
     = Some \<lparr>name = ''Ann'', phones = [], birthday = None\<rparr>"
proof -
  have e: "well_keyed []" by (simp add: well_keyed_def)
  show ?thesis
    using AddressBook_keys_are_names [OF e, of "[AddRecord ''Ann'' ''1'', AddRecord ''Bob'' ''2'',
      AddRecord [] ''5'', AddRecord ''Ann'' ''3'', Delete ''Bob'', Find (Str ''Ann'')]"] e
    unfolding run_sample
    by simp
qed


section \<open>Properties of the upcoming birthdays\<close>

lemma strptime_1990: "strptime ''13.06.1990'' = Inr (1990, 6, 13)"
  by (simp add: strptime_def nonzero_digit_def ascii_digit_def token_val_def digit_val_def
      datetime_def c_int_def days_in_month_def is_leap_def)

lemma strptime_2024: "strptime ''13.06.2024'' = Inr (2024, 6, 13)"
  by (simp add: strptime_def nonzero_digit_def ascii_digit_def token_val_def digit_val_def
      datetime_def c_int_def days_in_month_def is_leap_def)

lemma week_after_10_june: "date_plus (2024, 6, 10) 7 = Inr (2024, 6, 17)"
  by (simp add: date_plus_def eval_nat_numeral days_in_month_def)

lemma upcoming_single:
  "birthday r = Some b \<Longrightarrow> strptime b = Inr d \<Longrightarrow> date_plus today 7 = Inr limit \<Longrightarrow>
   get_upcoming_birthdays today [(k, r)]
     = Inr (if date_le today d \<and> date_le d limit then [(name r, b)] else [])"
  by (simp add: get_upcoming_birthdays_def)

text \<open>
  C4. The claim wants a contact listed when this year's date with the stored month and
  day lies in the window from today to seven days on. The date that is compared is the
  one \<^verbatim>\<open>strptime\<close> reads from the stored string, year included (\<open>upcoming_single\<close>):
  on 10 June 2024 a contact born on 13 June 1990, whose birthday is three days away, is
  not listed; a contact is listed only when the stored date itself, year included, lies
  in the window.
\<close>

theorem upcoming_compares_stored_year:
  "get_upcoming_birthdays (2024, 6, 10)
     [(''Ann'', \<lparr>name = ''Ann'', phones = [], birthday = Some ''13.06.1990''\<rparr>)] = Inr [] \<and>
   get_upcoming_birthdays (2024, 6, 10)
     [(''Ann'', \<lparr>name = ''Ann'', phones = [], birthday = Some ''13.06.2024''\<rparr>)]
     = Inr [(''Ann'', ''13.06.2024'')]"
  by (simp add: get_upcoming_birthdays_def strptime_1990 strptime_2024 week_after_10_june)

section \<open>Properties of the error translation\<close>

lemma input_error_returns: "\<exists>v. returned (input_error func a book) = Inr v"
  by (cases "returned (func a book)") (simp_all add: input_error_def Let_def)

lemma input_error_caught:
  "returned (func a book) = Inl e \<Longrightarrow>
   returned (input_error func a book) = Inr (Text (caught e))"
  by (simp add: input_error_def Let_def)

lemma input_error_keeps_effects:
  "book_after (input_error func a book) = book_after (func a book) \<and>
   printed (input_error func a book) = printed (func a book)"
  by (cases "returned (func a book)") (simp_all add: input_error_def Let_def)

lemma run_command_add_birthday_goes_on:
  "raised (run_command today ''add-birthday'' args book) = None \<and>
   \<not> finished (run_command today ''add-birthday'' args book)"
proof -
  obtain v where "returned (add_birthday args book) = Inr v"
    using input_error_returns [of add_birthday_body args book]
    by (auto simp add: add_birthday_def)
  then show ?thesis
    by (simp add: run_command_def carry_on_def Let_def)
qed

lemma run_command_show_birthday_goes_on:
  "raised (run_command today ''show-birthday'' args book) = None \<and>
   \<not> finished (run_command today ''show-birthday'' args book)"
proof -
  obtain v where "returned (show_birthday (StrList args) book) = Inr v"
    using input_error_returns [of show_birthday_body "StrList args" book]
    by (auto simp add: show_birthday_def)
  then show ?thesis
    by (simp add: run_command_def carry_on_def Let_def)
qed

lemma run_command_birthdays_goes_on:
  "raised (run_command today ''birthdays'' args book) = None \<and>
   \<not> finished (run_command today ''birthdays'' args book)"
proof -
  obtain v where "returned (birthdays today args book) = Inr v"
    using input_error_returns [of "birthdays_body today" args book]
    by (auto simp add: birthdays_def)
  then show ?thesis
    by (simp add: run_command_def carry_on_def Let_def)
qed

text \<open>
  \<^verbatim>\<open>main\<close> hands \<^verbatim>\<open>show_birthday\<close> the argument list, which the handler looks up
  as the key: the \<^verbatim>\<open>TypeError\<close> of the lookup is what comes back, for every book.
\<close>

lemma show_birthday_of_argument_list:
  "returned (show_birthday (StrList args) book)
     = Inr (Text (''An error occurred: unhashable type: '' @ [CHR 0x27] @ ''list'' @ [CHR 0x27]))"
  by (simp add: show_birthday_def input_error_def show_birthday_body_def unhashable_list_def)

lemma Birthday_31_02_2024: "Birthday ''31.02.2024'' = Inl invalid_date"
  by (simp add: py_int_def int_strip_def int_space_def ascii_digit_def digit_val_def
      checked_date_def datetime_def c_int_def days_in_month_def is_leap_def)

lemma add_birthday_body_bad_date:
  "returned (add_birthday_body [''Ann'', ''31.02.2024'']
      [(''Ann'', \<lparr>name = ''Ann'', phones = [], birthday = None\<rparr>)])
     = Inl (ValueError ''Invalid date format. Use DD.MM.YYYY'')"
  by (simp add: Record_add_birthday_def Birthday_31_02_2024 invalid_date_def del: Birthday.simps)

text \<open>
  C7. A function wrapped by \<^verbatim>\<open>input_error\<close> that raises \<^verbatim>\<open>ValueError\<close>,
  \<^verbatim>\<open>KeyError\<close> or \<^verbatim>\<open>IndexError\<close> with text \<open>msg\<close> returns the string made of the
  exception's name, a colon, a blank and \<open>msg\<close>. The handlers \<^verbatim>\<open>add_birthday\<close>,
  \<^verbatim>\<open>show_birthday\<close> and \<^verbatim>\<open>birthdays\<close> are such wrapped functions; for every
  argument and book each of them returns a value and raises nothing, and the pass through
  the loop that runs one of the three commands ends with no exception and without
  leaving the loop.
\<close>

theorem handlers_turn_failures_into_text:
  "(returned (func a book) = Inl (ValueError msg) \<longrightarrow>
      returned (input_error func a book) = Inr (Text (''ValueError: '' @ msg))) \<and>
   (returned (func a book) = Inl (KeyError msg) \<longrightarrow>
      returned (input_error func a book) = Inr (Text (''KeyError: '' @ msg))) \<and>
   (returned (func a book) = Inl (IndexError msg) \<longrightarrow>
      returned (input_error func a book) = Inr (Text (''IndexError: '' @ msg))) \<and>
   add_birthday = input_error add_birthday_body \<and>
   show_birthday = input_error show_birthday_body \<and>
   birthdays today = input_error (birthdays_body today) \<and>
   (\<exists>v. returned (add_birthday args book) = Inr v) \<and>
   (\<exists>v. returned (show_birthday key book) = Inr v) \<and>
   (\<exists>v. returned (birthdays today args book) = Inr v) \<and>
   raised (run_command today ''add-birthday'' args book) = None \<and>
   \<not> finished (run_command today ''add-birthday'' args book) \<and>
   raised (run_command today ''show-birthday'' args book) = None \<and>
   \<not> finished (run_command today ''show-birthday'' args book) \<and>
   raised (run_command today ''birthdays'' args book) = None \<and>
   \<not> finished (run_command today ''birthdays'' args book)"
  using input_error_caught [of func a book]
    input_error_returns [of add_birthday_body args book]
    input_error_returns [of show_birthday_body key book]
    input_error_returns [of "birthdays_body today" args book]
    run_command_add_birthday_goes_on [of today args book]
    run_command_show_birthday_goes_on [of today args book]
    run_command_birthdays_goes_on [of today args book]
  by (simp add: add_birthday_def show_birthday_def birthdays_def)

theorem handlers_turn_failures_into_text_witness:
  "returned (add_birthday [''Ann'', ''31.02.2024'']
      [(''Ann'', \<lparr>name = ''Ann'', phones = [], birthday = None\<rparr>)])
     = Inr (Text ''ValueError: Invalid date format. Use DD.MM.YYYY'') \<and>
   returned (input_error
      (\<lambda>a b. \<lparr>returned = Inl (KeyError ''Ann''), book_after = b, printed = []\<rparr>) () [])
     = Inr (Text ''KeyError: Ann'') \<and>
   returned (input_error
      (\<lambda>a b. \<lparr>returned = Inl (IndexError ''list index out of range''), book_after = b,
               printed = []\<rparr>) () [])
     = Inr (Text ''IndexError: list index out of range'') \<and>
   raised (run_command (2024, 6, 10) ''add-birthday'' [''Ann'', ''31.02.2024'']
      [(''Ann'', \<lparr>name = ''Ann'', phones = [], birthday = None\<rparr>)]) = None"
proof -
  note v = handlers_turn_failures_into_text
    [where func = add_birthday_body and a = "[''Ann'', ''31.02.2024'']"
       and book = "[(''Ann'', \<lparr>name = ''Ann'', phones = [], birthday = None\<rparr>)]"
       and msg = "''Invalid date format. Use DD.MM.YYYY''"
       and today = "(2024, 6, 10)" and args = "[''Ann'', ''31.02.2024'']"
       and key = "Str ''Ann''"]
  note k = handlers_turn_failures_into_text
    [where func = "\<lambda>a b. \<lparr>returned = Inl (KeyError ''Ann''), book_after = b, printed = []\<rparr>"
       and a = "()" and book = "[]" and msg = "''Ann''"
       and today = "(2024, 6, 10)" and args = "[]" and key = "Str ''Ann''"]
  note i = handlers_turn_failures_into_text
    [where func = "\<lambda>a b. \<lparr>returned = Inl (IndexError ''list index out of range''),
                             book_after = b, printed = []\<rparr>"
       and a = "()" and book = "[]" and msg = "''list index out of range''"
       and today = "(2024, 6, 10)" and args = "[]" and key = "Str ''Ann''"]
  from v add_birthday_body_bad_date
  have 1: "returned (add_birthday [''Ann'', ''31.02.2024'']
      [(''Ann'', \<lparr>name = ''Ann'', phones = [], birthday = None\<rparr>)])
     = Inr (Text ''ValueError: Invalid date format. Use DD.MM.YYYY'')"
    by (simp add: add_birthday_def del: add_birthday_body.simps)
  from v have 2: "raised (run_command (2024, 6, 10) ''add-birthday'' [''Ann'', ''31.02.2024'']
      [(''Ann'', \<lparr>name = ''Ann'', phones = [], birthday = None\<rparr>)]) = None"
    by blast
  from k have 3: "returned (input_error
      (\<lambda>a b. \<lparr>returned = Inl (KeyError ''Ann''), book_after = b, printed = []\<rparr>) () [])
     = Inr (Text ''KeyError: Ann'')"
    by simp
  from i have 4: "returned (input_error
      (\<lambda>a b. \<lparr>returned = Inl (IndexError ''list index out of range''), book_after = b,
               printed = []\<rparr>) () [])
     = Inr (Text ''IndexError: list index out of range'')"
    by simp
  from 1 2 3 4 show ?thesis by blast
qed

section \<open>Properties of the dispatch loop\<close>

lemma run_command_phone_raises:
  "length args = 1 \<Longrightarrow> run_command today ''phone'' args book = crash unhashable_list book []"
  by (simp add: run_command_def)

lemma run_command_change_raises:
  "length args = 3 \<Longrightarrow> run_command today ''change'' args book = crash unhashable_list book []"
  by (simp add: run_command_def)

lemma parse_phone_Ann: "parse_input ''phone Ann'' = Inr (''phone'', [''Ann''])"
  by (simp add: parse_input_def py_split_def py_strip_def py_lower_def lower_char_def
      isspace_char_def)

lemma parse_change_Ann:
  "parse_input ''change Ann 1234567890 0987654321''
     = Inr (''change'', [''Ann'', ''1234567890'', ''0987654321''])"
  by (simp add: parse_input_def py_split_def py_strip_def py_lower_def lower_char_def
      isspace_char_def)

text \<open>
  C3. The claim wants \<^verbatim>\<open>change\<close> and \<^verbatim>\<open>phone\<close> to look the record up under the
  name. Both branches call \<^verbatim>\<open>book.find(args)\<close> with the whole argument list;
  \<^verbatim>\<open>dict.get\<close> raises \<^verbatim>\<open>TypeError\<close> for a list, nothing catches it, and the pass
  through the loop ends with that exception for every book, with nothing printed and
  nothing changed.
\<close>

theorem phone_and_change_raise:
  "main_step today ''phone Ann'' book = crash unhashable_list book [] \<and>
   main_step today ''change Ann 1234567890 0987654321'' book = crash unhashable_list book []"
  by (simp add: main_step_def parse_phone_Ann parse_change_Ann run_command_phone_raises
      run_command_change_raises)

end
